theory Spec2Isabelle
  imports Complex_Main "HOL-Library.Code_Target_Numeral"
begin

section \<open>Numbers and the built-ins of the language\<close>

text \<open>
  The source is TypeScript (\<^verbatim>\<open>project/src/aspect.ts\<close>). A \<^verbatim>\<open>number\<close> is modelled as an exact
  \<^typ>\<open>real\<close>: the rounding of binary64 arithmetic, the infinities and the sign of zero are not
  part of the model. \<^verbatim>\<open>NaN\<close> appears in two places only, and both are written out: reading
  index 0 of an empty array (\<open>index0\<close>) and parsing a string that is no number (\<open>parseFloat\<close>).
\<close>

definition Math_PI :: real where
  "Math_PI = pi"

text \<open>
  Modelled from the spec: \<^verbatim>\<open>radiansToDegree\<close> is imported from \<^verbatim>\<open>./utils\<close>, which is not among the
  sources. The spec (section 6) describes it as the pure function converting radians to degrees,
  used to express \<open>\<pi>\<close> and \<open>2\<pi>\<close> as 180 and 360 degrees.
\<close>

definition radiansToDegree :: "real \<Rightarrow> real" where
  "radiansToDegree radians = radians * 180 / Math_PI"

text \<open>
  The remainder operator \<^verbatim>\<open>%\<close> on numbers: the quotient is truncated towards zero, so the
  result has the sign of the dividend. Every call site divides by 360.
\<close>

definition js_trunc :: "real \<Rightarrow> int" where
  "js_trunc q = (if q < 0 then \<lceil>q\<rceil> else \<lfloor>q\<rfloor>)"

definition js_rem :: "real \<Rightarrow> real \<Rightarrow> real" where
  "js_rem n d = n - d * of_int (js_trunc (n / d))"

text \<open>Reading index 0 and index 1 of a \<^verbatim>\<open>number[]\<close>; \<open>None\<close> is \<^verbatim>\<open>undefined\<close>.\<close>

definition index0 :: "real list \<Rightarrow> real option" where
  "index0 xs = (case xs of [] \<Rightarrow> None | x # _ \<Rightarrow> Some x)"

definition index1 :: "real list \<Rightarrow> real option" where
  "index1 xs = (case xs of _ # y # _ \<Rightarrow> Some y | _ \<Rightarrow> None)"

subsection \<open>\<^verbatim>\<open>Number.prototype.toFixed\<close>\<close>

fun digitsOf :: "nat \<Rightarrow> string" where
  "digitsOf n =
     (if n < 10 then [''0123456789'' ! n]
      else digitsOf (n div 10) @ [''0123456789'' ! (n mod 10)])"

declare digitsOf.simps [simp del]

text \<open>
  \<^verbatim>\<open>x.toFixed(f)\<close> as ECMAScript defines it on the mathematical value of \<open>x\<close>: a minus sign for
  \<open>x < 0\<close>, then the integer \<open>n\<close> nearest to \<open>\<bar>x\<bar> * 10^f\<close> (the larger one on a tie), written in
  decimal, padded with zeros to \<open>f + 1\<close> digits, with the point before the last \<open>f\<close> digits.
  From \<open>\<bar>x\<bar> = 10^21\<close> on the language prints the same number in exponent notation, whose digits
  depend on the binary64 representation; the model keeps the plain decimal digits there, so
  that beyond that bound the string differs while the number it denotes does not.
\<close>

definition toFixed :: "real \<Rightarrow> nat \<Rightarrow> string" where
  "toFixed x0 f =
     (let s = (if x0 < 0 then ''-'' else '''');
          x = (if x0 < 0 then - x0 else x0);
          n = nat \<lfloor>x * 10 ^ f + 1 / 2\<rfloor>;
          m0 = digitsOf n;
          k0 = length m0;
          m = (if k0 \<le> f then replicate (f + 1 - k0) CHR ''0'' @ m0 else m0);
          k = (if k0 \<le> f then f + 1 else k0)
      in s @ (if f \<noteq> 0 then take (k - f) m @ ''.'' @ drop (k - f) m else m))"

subsection \<open>\<^verbatim>\<open>parseFloat\<close>\<close>

definition isDigit :: "char \<Rightarrow> bool" where
  "isDigit c = (c \<in> set ''0123456789'')"

definition digitValue :: "char \<Rightarrow> nat" where
  "digitValue c = of_char c - 48"

definition digitsValue :: "string \<Rightarrow> nat" where
  "digitsValue ds = foldl (\<lambda>acc c. acc * 10 + digitValue c) 0 ds"

text \<open>
  \<^verbatim>\<open>parseFloat\<close> on the decimal literals without exponent: an optional sign, the longest run
  of digits, and after a point the longest run of digits again; whatever follows is ignored.
  \<open>None\<close> is \<^verbatim>\<open>NaN\<close> (no digit where the number should start). Leading white space, exponents
  and \<^verbatim>\<open>Infinity\<close> are outside the model; \<open>toFixed\<close> produces none of them.
\<close>

definition parseFloat :: "string \<Rightarrow> real option" where
  "parseFloat str =
     (let neg = (case str of c # _ \<Rightarrow> c = CHR ''-'' | [] \<Rightarrow> False);
          body = (case str of c # cs \<Rightarrow> (if c = CHR ''-'' \<or> c = CHR ''+'' then cs else str)
                   | [] \<Rightarrow> []);
          ip = takeWhile isDigit body;
          rest = dropWhile isDigit body;
          fp = (case rest of c # cs \<Rightarrow> (if c = CHR ''.'' then takeWhile isDigit cs else [])
                 | [] \<Rightarrow> []);
          v = real (digitsValue ip) + real (digitsValue fp) / 10 ^ length fp
      in if ip = [] \<and> fp = [] then None
         else Some (if neg then - v else v))"

text \<open>
  The number that the digits of \<^verbatim>\<open>x.toFixed(f)\<close> denote: \<open>\<bar>x\<bar>\<close> rounded to \<open>f\<close> decimals, half
  up, with the sign of \<open>x\<close>.
\<close>

definition toFixedValue :: "real \<Rightarrow> nat \<Rightarrow> real" where
  "toFixedValue x f =
     (if x < 0 then - 1 else 1) * (real (nat \<lfloor>\<bar>x\<bar> * 10 ^ f + 1 / 2\<rfloor>) / 10 ^ f)"

subsection \<open>\<^verbatim>\<open>Array.prototype.sort\<close> with a comparator\<close>

text \<open>
  The language fixes the contract of the sort, not its algorithm: it is stable, and a comparator
  result that is \<^verbatim>\<open>NaN\<close> counts as \<open>0\<close>. The model is the stable insertion sort driven by the
  sign of the comparator.
\<close>

definition sortCompare :: "('a \<Rightarrow> 'a \<Rightarrow> real option) \<Rightarrow> 'a \<Rightarrow> 'a \<Rightarrow> real" where
  "sortCompare comparefn x y = (case comparefn x y of None \<Rightarrow> 0 | Some v \<Rightarrow> v)"

fun insertSorted :: "('a \<Rightarrow> 'a \<Rightarrow> real option) \<Rightarrow> 'a \<Rightarrow> 'a list \<Rightarrow> 'a list" where
  "insertSorted comparefn x [] = [x]"
| "insertSorted comparefn x (y # ys) =
     (if sortCompare comparefn x y \<le> 0 then x # y # ys
      else y # insertSorted comparefn x ys)"

definition array_sort :: "('a \<Rightarrow> 'a \<Rightarrow> real option) \<Rightarrow> 'a list \<Rightarrow> 'a list" where
  "array_sort comparefn xs = foldr (insertSorted comparefn) xs []"

section \<open>The data model\<close>

text \<open>
  Modelled from the spec: the types \<^verbatim>\<open>Points\<close> (\<^verbatim>\<open>./radix\<close>) and \<^verbatim>\<open>AspectData\<close>, \<^verbatim>\<open>Settings\<close>
  (\<^verbatim>\<open>./settings\<close>) are imported from files that are not among the sources. By section 3 of the
  spec a point set maps a name to \<^verbatim>\<open>[position]\<close> or \<^verbatim>\<open>[position, speed]\<close>, and the catalog maps
  an aspect name to \<^verbatim>\<open>{degree, orbit, color, lineStyle}\<close>. An object is kept as the list of
  its own properties in the order \<^verbatim>\<open>for ... in\<close> enumerates them.
\<close>

type_synonym Points = "(string \<times> real list) list"

record AspectData =
  degree :: real
  orbit :: real
  color :: string
  lineStyle :: string

type_synonym Aspects = "(string \<times> AspectData) list"

record Settings =
  ASPECTS :: "Aspects option"

definition DEFAULT_ASPECTS :: Aspects where
  "DEFAULT_ASPECTS =
     [(''opposition'', \<lparr>degree = 180, orbit = 10, color = ''#ff0000'', lineStyle = ''solid''\<rparr>),
      (''square'', \<lparr>degree = 90, orbit = 8, color = ''#ff0000'', lineStyle = ''short''\<rparr>),
      (''trine'', \<lparr>degree = 120, orbit = 8, color = ''#0000ff'', lineStyle = ''solid''\<rparr>),
      (''sextile'', \<lparr>degree = 60, orbit = 8, color = ''#0000ff'', lineStyle = ''short''\<rparr>),
      (''quincunx'', \<lparr>degree = 150, orbit = 8, color = ''#00ff00'', lineStyle = ''5,5''\<rparr>),
      (''semisextile'', \<lparr>degree = 30, orbit = 8, color = ''#00ff00'', lineStyle = ''2,2''\<rparr>),
      (''semisquare'', \<lparr>degree = 45, orbit = 8, color = ''#0000ff'', lineStyle = ''1,1''\<rparr>),
      (''sesquisquare'', \<lparr>degree = 135, orbit = 8, color = ''#0000ff'', lineStyle = ''6,2''\<rparr>),
      (''conjunction'', \<lparr>degree = 0, orbit = 10, color = ''transparent'', lineStyle = ''dashed''\<rparr>)]"

section \<open>The geometry: \<^verbatim>\<open>hasAspect\<close>, \<^verbatim>\<open>calcPrecision\<close>, \<^verbatim>\<open>isTransitPointApproachingToAspect\<close>\<close>

text \<open>
  The source has no function of its own for the reduced gap: \<open>hasAspect\<close> (lines 196 to 200)
  and \<open>calcPrecision\<close> (lines 221 to 225) compute it inline, with the same statements. Here
  those statements are a function, so that the claims about the gap can name it.
\<close>

definition reducedGap :: "real \<Rightarrow> real \<Rightarrow> real" where
  "reducedGap point toPoint =
     (let gap0 = \<bar>point - toPoint\<bar>
      in if gap0 > radiansToDegree Math_PI
         then radiansToDegree (2 * Math_PI) - gap0 else gap0)"

definition hasAspect :: "real \<Rightarrow> real \<Rightarrow> AspectData \<Rightarrow> bool" where
  "hasAspect point toPoint aspect =
     (let gap0 = \<bar>point - toPoint\<bar>;
          gap = (if gap0 > radiansToDegree Math_PI
                 then radiansToDegree (2 * Math_PI) - gap0 else gap0);
          orbitMin = degree aspect - (orbit aspect / 2);
          orbitMax = degree aspect + (orbit aspect / 2)
      in if orbitMin \<le> gap \<and> gap \<le> orbitMax then True else False)"

definition calcPrecision :: "real \<Rightarrow> real \<Rightarrow> real \<Rightarrow> real" where
  "calcPrecision point toPoint aspect =
     (let gap0 = \<bar>point - toPoint\<bar>;
          gap = (if gap0 > radiansToDegree Math_PI
                 then radiansToDegree (2 * Math_PI) - gap0 else gap0)
      in \<bar>gap - aspect\<bar>)"

definition isTransitPointApproachingToAspect :: "real \<Rightarrow> real \<Rightarrow> real \<Rightarrow> bool" where
  "isTransitPointApproachingToAspect aspect toPoint0 point0 =
     (let (point, toPoint) =
            (if (point0 - toPoint0) > 0 then
               (if (point0 - toPoint0) > radiansToDegree Math_PI
                then (js_rem (point0 + aspect) (radiansToDegree (2 * Math_PI)), toPoint0)
                else (point0, js_rem (toPoint0 + aspect) (radiansToDegree (2 * Math_PI))))
             else
               (if (toPoint0 - point0) > radiansToDegree Math_PI
                then (point0, js_rem (toPoint0 + aspect) (radiansToDegree (2 * Math_PI)))
                else (js_rem (point0 + aspect) (radiansToDegree (2 * Math_PI)), toPoint0)));
          difference = point - toPoint;
          (point', toPoint') =
            (if \<bar>difference\<bar> > radiansToDegree Math_PI then (toPoint, point)
             else (point, toPoint))
      in point' - toPoint' < 0)"

section \<open>The engine\<close>

record FormedPoint =
  name :: string
  position :: real

record FormedAspectData = AspectData +
  aspectName :: string

record FormedAspect =
  point :: FormedPoint
  toPoint :: FormedPoint
  aspect :: FormedAspectData
  precision :: string

record AspectCalculator =
  settings :: Settings
  toPoints :: Points

datatype error = Error string

definition constructor :: "Points option \<Rightarrow> Settings option \<Rightarrow> error + AspectCalculator" where
  "constructor toPoints_arg settings_arg =
     (case toPoints_arg of
        None \<Rightarrow> Inl (Error ''Param 'toPoint' must not be empty.'')
      | Some tps \<Rightarrow>
          Inr \<lparr>settings =
                 \<lparr>ASPECTS =
                    Some (case settings_arg of
                            None \<Rightarrow> DEFAULT_ASPECTS
                          | Some s \<Rightarrow> (case ASPECTS s of None \<Rightarrow> DEFAULT_ASPECTS | Some a \<Rightarrow> a))\<rparr>,
               toPoints = tps\<rparr>)"

definition getToPoints :: "AspectCalculator \<Rightarrow> Points" where
  "getToPoints this = toPoints this"

text \<open>The properties of \<^verbatim>\<open>this.settings.ASPECTS\<close> that \<^verbatim>\<open>for ... in\<close> visits.\<close>

definition aspectsOf :: "AspectCalculator \<Rightarrow> Aspects" where
  "aspectsOf this = (case ASPECTS (settings this) of None \<Rightarrow> [] | Some a \<Rightarrow> a)"

definition compareAspectsByPrecision :: "FormedAspect \<Rightarrow> FormedAspect \<Rightarrow> real option" where
  "compareAspectsByPrecision a b =
     (case (parseFloat (precision a), parseFloat (precision b)) of
        (Some x, Some y) \<Rightarrow> Some (x - y)
      | _ \<Rightarrow> None)"

text \<open>
  The object pushed by \<^verbatim>\<open>radix\<close> and by \<^verbatim>\<open>transit\<close> (the same literal in both), given the number
  that is formatted into \<^verbatim>\<open>precision\<close>.
\<close>

definition formedAspect ::
  "string \<Rightarrow> AspectData \<Rightarrow> string \<Rightarrow> real \<Rightarrow> string \<Rightarrow> real \<Rightarrow> real \<Rightarrow> FormedAspect" where
  "formedAspect aspect_name a point_name p toPoint_name t prec =
     \<lparr>point = \<lparr>name = point_name, position = p\<rparr>,
      toPoint = \<lparr>name = toPoint_name, position = t\<rparr>,
      aspect = \<lparr>degree = degree a, orbit = orbit a, color = color a, lineStyle = lineStyle a,
                aspectName = aspect_name\<rparr>,
      precision = toFixed prec 4\<rparr>"

text \<open>
  The body of the innermost loop of \<^verbatim>\<open>radix\<close>. A position that is \<^verbatim>\<open>undefined\<close> makes the gap
  \<^verbatim>\<open>NaN\<close>, every comparison of \<open>hasAspect\<close> false, and nothing is pushed.
\<close>

definition radixStep ::
  "string \<Rightarrow> real list \<Rightarrow> string \<Rightarrow> real list \<Rightarrow> string \<times> AspectData \<Rightarrow> FormedAspect list" where
  "radixStep point_name pv toPoint_name tv entry =
     (case (index0 pv, index0 tv) of
        (Some p, Some t) \<Rightarrow>
          (if hasAspect p t (snd entry)
           then [formedAspect (fst entry) (snd entry) point_name p toPoint_name t
                   (calcPrecision p t (degree (snd entry)))]
           else [])
      | _ \<Rightarrow> [])"

definition radixAspects :: "AspectCalculator \<Rightarrow> Points \<Rightarrow> FormedAspect list" where
  "radixAspects this points =
     concat (map (\<lambda>(point_name, pv).
       concat (map (\<lambda>(toPoint_name, tv).
         if point_name \<noteq> toPoint_name
         then concat (map (radixStep point_name pv toPoint_name tv) (aspectsOf this))
         else [])
       (toPoints this)))
     points)"

definition radix :: "AspectCalculator \<Rightarrow> Points option \<Rightarrow> FormedAspect list" where
  "radix this points_arg =
     (case points_arg of
        None \<Rightarrow> []
      | Some points \<Rightarrow> array_sort compareAspectsByPrecision (radixAspects this points))"

text \<open>
  \<^verbatim>\<open>points[point][1] && points[point][1] < 0\<close>: the speed is there, is not zero, and is negative.
\<close>

definition isRetrograde :: "real list \<Rightarrow> bool" where
  "isRetrograde pv = (case index1 pv of None \<Rightarrow> False | Some speed \<Rightarrow> speed \<noteq> 0 \<and> speed < 0)"

text \<open>The signed precision of \<^verbatim>\<open>transit\<close>: the local \<^verbatim>\<open>precision\<close> after the two conditional negations.\<close>

definition transitPrecision :: "real \<Rightarrow> real \<Rightarrow> real \<Rightarrow> real list \<Rightarrow> real" where
  "transitPrecision p t aspect_degree pv =
     (let precision0 = calcPrecision p t aspect_degree;
          precision1 = (if isTransitPointApproachingToAspect aspect_degree t p
                        then precision0 * (- 1) else precision0);
          precision2 = (if isRetrograde pv then precision1 * (- 1) else precision1)
      in precision2)"

definition transitStep ::
  "string \<Rightarrow> real list \<Rightarrow> string \<Rightarrow> real list \<Rightarrow> string \<times> AspectData \<Rightarrow> FormedAspect list" where
  "transitStep point_name pv toPoint_name tv entry =
     (case (index0 pv, index0 tv) of
        (Some p, Some t) \<Rightarrow>
          (if hasAspect p t (snd entry)
           then [formedAspect (fst entry) (snd entry) point_name p toPoint_name t
                   (transitPrecision p t (degree (snd entry)) pv)]
           else [])
      | _ \<Rightarrow> [])"

definition transitAspects :: "AspectCalculator \<Rightarrow> Points \<Rightarrow> FormedAspect list" where
  "transitAspects this points =
     concat (map (\<lambda>(point_name, pv).
       concat (map (\<lambda>(toPoint_name, tv).
         concat (map (transitStep point_name pv toPoint_name tv) (aspectsOf this)))
       (toPoints this)))
     points)"

definition transit :: "AspectCalculator \<Rightarrow> Points option \<Rightarrow> FormedAspect list" where
  "transit this points_arg =
     (case points_arg of
        None \<Rightarrow> []
      | Some points \<Rightarrow> array_sort compareAspectsByPrecision (transitAspects this points))"

section \<open>The degree constants and the reduced gap\<close>

lemma radiansToDegree_PI [simp]: "radiansToDegree Math_PI = 180"
  by (simp add: radiansToDegree_def Math_PI_def)

lemma radiansToDegree_2PI [simp]: "radiansToDegree (2 * Math_PI) = 360"
  by (simp add: radiansToDegree_def Math_PI_def)

lemma reducedGap_eq:
  "reducedGap a b = (if \<bar>a - b\<bar> > 180 then 360 - \<bar>a - b\<bar> else \<bar>a - b\<bar>)"
  by (simp add: reducedGap_def Let_def)

lemma hasAspect_reducedGap:
  "hasAspect p t a =
     (degree a - orbit a / 2 \<le> reducedGap p t \<and> reducedGap p t \<le> degree a + orbit a / 2)"
  by (simp add: hasAspect_def reducedGap_def Let_def)

lemma calcPrecision_reducedGap: "calcPrecision p t d = \<bar>reducedGap p t - d\<bar>"
  by (simp add: calcPrecision_def reducedGap_def Let_def)

text \<open>
  Code equations with the two constants evaluated, so that the geometry runs on concrete inputs
  (\<open>\<pi>\<close> itself has no executable representation).
\<close>

lemma reducedGap_code [code]:
  "reducedGap p t = (let gap0 = \<bar>p - t\<bar> in if gap0 > 180 then 360 - gap0 else gap0)"
  by (simp add: reducedGap_def Let_def)

lemma hasAspect_code [code]:
  "hasAspect p t a =
     (let gap = reducedGap p t
      in degree a - (orbit a / 2) \<le> gap \<and> gap \<le> degree a + (orbit a / 2))"
  by (simp add: hasAspect_reducedGap Let_def)

lemma calcPrecision_code [code]: "calcPrecision p t d = \<bar>reducedGap p t - d\<bar>"
  by (rule calcPrecision_reducedGap)

lemma isTransitPointApproachingToAspect_code [code]:
  "isTransitPointApproachingToAspect a t0 p0 =
     (let (p, t) =
            (if (p0 - t0) > 0 then
               (if (p0 - t0) > 180 then (js_rem (p0 + a) 360, t0) else (p0, js_rem (t0 + a) 360))
             else
               (if (t0 - p0) > 180 then (p0, js_rem (t0 + a) 360) else (js_rem (p0 + a) 360, t0)));
          difference = p - t;
          (p', t') = (if \<bar>difference\<bar> > 180 then (t, p) else (p, t))
      in p' - t' < 0)"
  by (simp add: isTransitPointApproachingToAspect_def)

text \<open>For positions in range the reduced gap is the shorter of the two arcs, between 0 and 180.\<close>

lemma reducedGap_shorter_arc:
  assumes "0 \<le> a" "a < 360" "0 \<le> b" "b < 360"
  shows "reducedGap a b = min \<bar>a - b\<bar> (360 - \<bar>a - b\<bar>)"
    and "0 \<le> reducedGap a b" and "reducedGap a b \<le> 180"
  using assms by (auto simp: reducedGap_eq min_def)







section \<open>The approach direction at equal positions\<close>






section \<open>Evaluating the engine on concrete inputs\<close>

lemma digitsOf_small: "n < 10 \<Longrightarrow> digitsOf n = [''0123456789'' ! n]"
  by (simp add: digitsOf.simps)

lemma digitsOf_big:
  "\<not> n < 10 \<Longrightarrow> digitsOf n = digitsOf (n div 10) @ [''0123456789'' ! (n mod 10)]"
  by (subst digitsOf.simps) simp

lemma replicate_numeral: "replicate (numeral k) x = x # replicate (pred_numeral k) x"
  by (simp add: numeral_eq_Suc)

lemmas toFixed_eval = toFixed_def Let_def digitsOf_small digitsOf_big replicate_numeral

lemmas parseFloat_eval = parseFloat_def Let_def isDigit_def digitsValue_def digitValue_def

lemmas engine_eval =
  radix_def radixAspects_def radixStep_def transit_def transitAspects_def transitStep_def
  transitPrecision_def isRetrograde_def aspectsOf_def DEFAULT_ASPECTS_def index0_def index1_def
  hasAspect_def calcPrecision_def formedAspect_def array_sort_def sortCompare_def
  compareAspectsByPrecision_def isTransitPointApproachingToAspect_def js_rem_def js_trunc_def
  constructor_def

text \<open>
  C5. The engine built from the reference set \<open>{Moon: [90]}\<close> with no settings, asked for
  \<open>radix({Sun: [0]})\<close>, returns exactly one record: Sun at 0 to Moon at 90, the default square
  (degree 90, orbit 8, its colour and line style), precision \<open>0.0000\<close>.
\<close>

theorem radix_default_square:
  "map_sum id (\<lambda>this. radix this (Some [(''Sun'', [0])]))
     (constructor (Some [(''Moon'', [90])]) None) =
   Inr [\<lparr>point = \<lparr>name = ''Sun'', position = 0\<rparr>,
         toPoint = \<lparr>name = ''Moon'', position = 90\<rparr>,
         aspect = \<lparr>degree = 90, orbit = 8, color = ''#ff0000'', lineStyle = ''short'',
                   aspectName = ''square''\<rparr>,
         precision = ''0.0000''\<rparr>]"
  by (simp add: engine_eval toFixed_eval)

section \<open>Construction and the absent query set\<close>

text \<open>
  C9, as stated, fails on the text of the message: the source's message ends with a full stop,
  the claim's does not.
\<close>

theorem constructor_message_counterexample:
  "constructor None None = Inl (Error ''Param 'toPoint' must not be empty.'') \<and>
   constructor None None \<noteq> Inl (Error ''Param 'toPoint' must not be empty'')"
  by (simp add: constructor_def)

text \<open>
  C9, amended. Construction without a reference point set fails, whatever the settings, with the
  error whose message is \<open>Param 'toPoint' must not be empty.\<close> (full stop included), and
  yields no engine; \<open>radix\<close> and \<open>transit\<close> without a query set return the empty sequence.
\<close>

theorem constructor_null_radix_transit_null:
  "constructor None settings_arg = Inl (Error ''Param 'toPoint' must not be empty.'') \<and>
   radix this None = [] \<and> transit this None = []"
  by (simp add: constructor_def radix_def transit_def)

section \<open>The records that \<open>radix\<close> and \<open>transit\<close> emit\<close>

lemma set_insertSorted [simp]: "set (insertSorted c x ys) = insert x (set ys)"
  by (induction ys) auto

lemma set_array_sort [simp]: "set (array_sort c xs) = set xs"
  by (induction xs) (simp_all add: array_sort_def)

lemma radixStep_mem:
  "r \<in> set (radixStep pn pv tn tv e) =
     (\<exists>p t. index0 pv = Some p \<and> index0 tv = Some t \<and> hasAspect p t (snd e) \<and>
        r = formedAspect (fst e) (snd e) pn p tn t (calcPrecision p t (degree (snd e))))"
  by (cases "index0 pv"; cases "index0 tv") (auto simp: radixStep_def)

lemma transitStep_mem:
  "r \<in> set (transitStep pn pv tn tv e) =
     (\<exists>p t. index0 pv = Some p \<and> index0 tv = Some t \<and> hasAspect p t (snd e) \<and>
        r = formedAspect (fst e) (snd e) pn p tn t (transitPrecision p t (degree (snd e)) pv))"
  by (cases "index0 pv"; cases "index0 tv") (auto simp: transitStep_def)

lemma radixAspects_mem:
  "r \<in> set (radixAspects this points) =
     (\<exists>pn pv tn tv e. (pn, pv) \<in> set points \<and> (tn, tv) \<in> set (toPoints this) \<and> pn \<noteq> tn \<and>
        e \<in> set (aspectsOf this) \<and> r \<in> set (radixStep pn pv tn tv e))"
  by (fastforce simp: radixAspects_def split: if_splits)

lemma transitAspects_mem:
  "r \<in> set (transitAspects this points) =
     (\<exists>pn pv tn tv e. (pn, pv) \<in> set points \<and> (tn, tv) \<in> set (toPoints this) \<and>
        e \<in> set (aspectsOf this) \<and> r \<in> set (transitStep pn pv tn tv e))"
  by (fastforce simp: transitAspects_def)

text \<open>
  C8. No record of \<open>radix\<close> has the same name for its point and its reference point: the loop
  compares the keys, so a name present in both sets is skipped whatever its two positions are.
\<close>

theorem radix_distinct_names:
  assumes "r \<in> set (radix this points_arg)"
  shows "name (point r) \<noteq> name (toPoint r)"
proof (cases points_arg)
  case None
  with assms show ?thesis by (simp add: radix_def)
next
  case (Some points)
  with assms have "r \<in> set (radixAspects this points)" by (simp add: radix_def)
  then show ?thesis
    by (auto simp: radixAspects_mem radixStep_mem formedAspect_def)
qed

theorem radix_distinct_names_witness:
  "radix \<lparr>settings = \<lparr>ASPECTS = Some DEFAULT_ASPECTS\<rparr>,
          toPoints = [(''Sun'', [90]), (''Moon'', [90])]\<rparr> (Some [(''Sun'', [0])]) =
     [formedAspect ''square'' \<lparr>degree = 90, orbit = 8, color = ''#ff0000'', lineStyle = ''short''\<rparr>
        ''Sun'' 0 ''Moon'' 90 0] \<and>
   ''Sun'' \<noteq> ''Moon''"
proof -
  let ?eng = "\<lparr>settings = \<lparr>ASPECTS = Some DEFAULT_ASPECTS\<rparr>,
                toPoints = [(''Sun'', [90]), (''Moon'', [90])]\<rparr>"
  let ?r = "formedAspect ''square''
              \<lparr>degree = 90, orbit = 8, color = ''#ff0000'', lineStyle = ''short''\<rparr>
              ''Sun'' 0 ''Moon'' 90 0"
  have run: "radix ?eng (Some [(''Sun'', [0])]) = [?r]"
    by (simp add: engine_eval toFixed_eval)
  then have "?r \<in> set (radix ?eng (Some [(''Sun'', [0])]))" by simp
  from radix_distinct_names [OF this] run show ?thesis
    by (simp add: formedAspect_def)
qed

lemma isRetrograde_iff: "isRetrograde pv = (\<exists>speed. index1 pv = Some speed \<and> speed < 0)"
  by (cases "index1 pv") (auto simp: isRetrograde_def)

lemma calcPrecision_nonneg: "0 \<le> calcPrecision p t d"
  by (simp add: calcPrecision_reducedGap)

lemma transitPrecision_sign:
  "transitPrecision p t d pv =
     (if isRetrograde pv then - 1 else 1) *
       ((if isTransitPointApproachingToAspect d t p then - 1 else 1) * calcPrecision p t d)"
  by (simp add: transitPrecision_def Let_def)

lemma transit_mem:
  "r \<in> set (transit this (Some points)) =
     (\<exists>pn pv tn tv e p t. (pn, pv) \<in> set points \<and> (tn, tv) \<in> set (toPoints this) \<and>
        e \<in> set (aspectsOf this) \<and> index0 pv = Some p \<and> index0 tv = Some t \<and>
        hasAspect p t (snd e) \<and>
        r = formedAspect (fst e) (snd e) pn p tn t (transitPrecision p t (degree (snd e)) pv))"
  unfolding transit_def option.case set_array_sort transitAspects_mem transitStep_mem by blast


lemma formedAspect_sel [simp]:
  "name (point (formedAspect an a pn p tn t prec)) = pn"
  "position (point (formedAspect an a pn p tn t prec)) = p"
  "name (toPoint (formedAspect an a pn p tn t prec)) = tn"
  "position (toPoint (formedAspect an a pn p tn t prec)) = t"
  "degree (aspect (formedAspect an a pn p tn t prec)) = degree a"
  "orbit (aspect (formedAspect an a pn p tn t prec)) = orbit a"
  "aspectName (aspect (formedAspect an a pn p tn t prec)) = an"
  "precision (formedAspect an a pn p tn t prec) = toFixed prec 4"
  by (simp_all add: formedAspect_def)

text \<open>
  C2. Every record of \<open>transit\<close> comes from an entry of the query set with the record's point
  name and position, and its precision is the formatted product of the unsigned precision
  \<open>calcPrecision\<close> (which is never negative) with one factor \<open>-1\<close> when
  \<open>isTransitPointApproachingToAspect\<close> is true and one more factor \<open>-1\<close> when the entry's
  speed is present and negative. When both apply the two negations cancel and the unsigned
  precision is what is formatted.
\<close>

theorem transit_precision_sign:
  assumes "r \<in> set (transit this (Some points))"
  shows "\<exists>pv. (name (point r), pv) \<in> set points \<and> index0 pv = Some (position (point r)) \<and>
     (let unsigned = calcPrecision (position (point r)) (position (toPoint r)) (degree (aspect r));
          approaching = isTransitPointApproachingToAspect
                          (degree (aspect r)) (position (toPoint r)) (position (point r));
          retrograde = (\<exists>speed. index1 pv = Some speed \<and> speed < 0)
      in 0 \<le> unsigned \<and>
         precision r =
           toFixed ((if retrograde then - 1 else 1) * ((if approaching then - 1 else 1) * unsigned)) 4 \<and>
         (approaching \<and> retrograde \<longrightarrow> precision r = toFixed unsigned 4))"
proof -
  from assms obtain pn pv tn tv e p t where
    pv: "(pn, pv) \<in> set points" "index0 pv = Some p" and
    r: "r = formedAspect (fst e) (snd e) pn p tn t (transitPrecision p t (degree (snd e)) pv)"
    unfolding transit_mem by blast
  show ?thesis
    by (rule exI [of _ pv])
       (simp add: r pv transitPrecision_sign isRetrograde_iff calcPrecision_nonneg Let_def)
qed

theorem transit_precision_sign_witness:
  "transit \<lparr>settings = \<lparr>ASPECTS = Some DEFAULT_ASPECTS\<rparr>, toPoints = [(''Sun'', [10])]\<rparr>
     (Some [(''Mars'', [8, - 1])]) =
     [\<lparr>point = \<lparr>name = ''Mars'', position = 8\<rparr>,
       toPoint = \<lparr>name = ''Sun'', position = 10\<rparr>,
       aspect = \<lparr>degree = 0, orbit = 10, color = ''transparent'', lineStyle = ''dashed'',
                 aspectName = ''conjunction''\<rparr>,
       precision = ''2.0000''\<rparr>] \<and>
   isTransitPointApproachingToAspect 0 10 8 \<and> isRetrograde [8, - 1] \<and>
   calcPrecision 8 10 0 = 2"
proof -
  let ?eng = "\<lparr>settings = \<lparr>ASPECTS = Some DEFAULT_ASPECTS\<rparr>, toPoints = [(''Sun'', [10])]\<rparr>"
  let ?r = "\<lparr>point = \<lparr>name = ''Mars'', position = 8\<rparr>,
             toPoint = \<lparr>name = ''Sun'', position = 10\<rparr>,
             aspect = \<lparr>degree = 0, orbit = 10, color = ''transparent'', lineStyle = ''dashed'',
                       aspectName = ''conjunction''\<rparr>,
             precision = ''2.0000''\<rparr>"
  have run: "transit ?eng (Some [(''Mars'', [8, - 1])]) = [?r]"
    by (simp add: engine_eval toFixed_eval)
  then have "?r \<in> set (transit ?eng (Some [(''Mars'', [8, - 1])]))" by simp
  from transit_precision_sign [OF this] run show ?thesis
    by (simp add: engine_eval)
qed



section \<open>Reading a formatted precision back\<close>

lemma digit_char:
  assumes "d < 10"
  shows "isDigit (''0123456789'' ! d)" and "digitValue (''0123456789'' ! d) = d"
proof -
  from assms have "d \<in> {0, 1, 2, 3, 4, 5, 6, 7, 8, 9}" by auto
  then show "isDigit (''0123456789'' ! d)" and "digitValue (''0123456789'' ! d) = d"
    by (auto simp: isDigit_def digitValue_def)
qed

lemma digitsValue_snoc: "digitsValue (ds @ [c]) = digitsValue ds * 10 + digitValue c"
  by (simp add: digitsValue_def)

lemma digitsValue_append:
  "digitsValue (xs @ ys) = digitsValue xs * 10 ^ length ys + digitsValue ys"
proof (induction ys rule: rev_induct)
  case Nil
  show ?case by (simp add: digitsValue_def)
next
  case (snoc c ys)
  have "digitsValue (xs @ ys @ [c]) = digitsValue (xs @ ys) * 10 + digitValue c"
    using digitsValue_snoc [of "xs @ ys" c] by simp
  with snoc show ?case by (simp add: digitsValue_snoc algebra_simps)
qed

lemma digitsValue_zeros: "digitsValue (replicate k CHR ''0'') = 0"
proof (induction k)
  case 0
  show ?case by (simp add: digitsValue_def)
next
  case (Suc k)
  have "digitsValue [CHR ''0''] = 0" by (simp add: digitsValue_def digitValue_def)
  with Suc show ?case
    using digitsValue_append [of "[CHR ''0'']" "replicate k CHR ''0''"] by simp
qed

lemma digitsOf_isDigit: "c \<in> set (digitsOf n) \<Longrightarrow> isDigit c"
proof (induction n rule: digitsOf.induct)
  case (1 n)
  show ?case
  proof (cases "n < 10")
    case True
    with "1.prems" show ?thesis by (simp add: digitsOf_small digit_char)
  next
    case False
    with "1.prems" "1.IH" show ?thesis by (auto simp: digitsOf_big digit_char)
  qed
qed

lemma digitsValue_digitsOf: "digitsValue (digitsOf n) = n"
proof (induction n rule: digitsOf.induct)
  case (1 n)
  show ?case
  proof (cases "n < 10")
    case True
    then show ?thesis
      using digitsValue_snoc [of "[]" "''0123456789'' ! n"]
      by (simp add: digitsOf_small digit_char digitsValue_def)
  next
    case False
    with "1.IH" show ?thesis by (simp add: digitsOf_big digitsValue_snoc digit_char)
  qed
qed


lemma digitsOf_nonempty: "digitsOf n \<noteq> []"
  by (cases "n < 10") (simp_all add: digitsOf_small digitsOf_big)

lemma not_isDigit_point [simp]: "\<not> isDigit CHR ''.''"
  by (simp add: isDigit_def)

lemma isDigit_not_sign: "isDigit c \<Longrightarrow> c \<noteq> CHR ''-'' \<and> c \<noteq> CHR ''+''"
  by (auto simp: isDigit_def)

lemma parseFloat_decimal:
  assumes "a \<noteq> []" "\<forall>c\<in>set a. isDigit c" "\<forall>c\<in>set b. isDigit c"
  shows "parseFloat (a @ ''.'' @ b) = Some (real (digitsValue a) + real (digitsValue b) / 10 ^ length b)"
    and "parseFloat (''-'' @ a @ ''.'' @ b) =
           Some (- (real (digitsValue a) + real (digitsValue b) / 10 ^ length b))"
proof -
  from assms(1) obtain c a' where a: "a = c # a'" by (cases a) auto
  with assms(2) have c: "isDigit c" "c \<noteq> CHR ''-''" "c \<noteq> CHR ''+''"
    using isDigit_not_sign by auto
  from a assms(2) have a': "\<forall>c\<in>set a'. isDigit c" by simp
  have tw: "takeWhile isDigit (a' @ CHR ''.'' # b) = a'"
    using a' by (simp add: takeWhile_append2)
  have dw: "dropWhile isDigit (a' @ CHR ''.'' # b) = CHR ''.'' # b"
    using a' by (simp add: dropWhile_append2)
  have tb: "takeWhile isDigit b = b"
    using assms(3) by (simp add: takeWhile_eq_all_conv)
  show "parseFloat (a @ ''.'' @ b) = Some (real (digitsValue a) + real (digitsValue b) / 10 ^ length b)"
    by (simp add: parseFloat_def Let_def a c tw dw tb)
  show "parseFloat (''-'' @ a @ ''.'' @ b) =
          Some (- (real (digitsValue a) + real (digitsValue b) / 10 ^ length b))"
    by (simp add: parseFloat_def Let_def a c tw dw tb)
qed

lemma toFixed4_shape:
  "\<exists>m. toFixed x 4 =
          (if x < 0 then ''-'' else []) @ take (length m - 4) m @ ''.'' @ drop (length m - 4) m \<and>
        5 \<le> length m \<and> (\<forall>c\<in>set m. isDigit c) \<and>
        digitsValue m = nat \<lfloor>\<bar>x\<bar> * 10 ^ 4 + 1 / 2\<rfloor>"
proof -
  define n where "n = nat \<lfloor>\<bar>x\<bar> * 10 ^ 4 + 1 / 2\<rfloor>"
  define m where
    "m = (if length (digitsOf n) \<le> 4
          then replicate (4 + 1 - length (digitsOf n)) CHR ''0'' @ digitsOf n else digitsOf n)"
  have ax: "(if x < 0 then - x else x) = \<bar>x\<bar>" by simp
  have len: "5 \<le> length m" by (simp add: m_def)
  have k: "(if length (digitsOf n) \<le> 4 then 4 + 1 else length (digitsOf n)) = length m"
    by (simp add: m_def)
  have dig: "\<forall>c\<in>set m. isDigit c"
    by (auto simp: m_def isDigit_def dest: digitsOf_isDigit)
  have val: "digitsValue m = n"
    by (simp add: m_def digitsValue_append digitsValue_zeros digitsValue_digitsOf)
  have "toFixed x 4 =
          (if x < 0 then ''-'' else []) @ take (length m - 4) m @ ''.'' @ drop (length m - 4) m"
    unfolding toFixed_def Let_def ax n_def [symmetric] m_def [symmetric] k by simp
  with len dig val show ?thesis unfolding n_def by blast
qed


lemma parseFloat_toFixed4: "parseFloat (toFixed x 4) = Some (toFixedValue x 4)"
proof -
  from toFixed4_shape [of x] obtain m where
    tf: "toFixed x 4 =
           (if x < 0 then ''-'' else []) @ take (length m - 4) m @ ''.'' @ drop (length m - 4) m"
    and len: "5 \<le> length m" and dig: "\<forall>c\<in>set m. isDigit c"
    and val: "digitsValue m = nat \<lfloor>\<bar>x\<bar> * 10 ^ 4 + 1 / 2\<rfloor>"
    by blast
  define a where "a = take (length m - 4) m"
  define b where "b = drop (length m - 4) m"
  have ab: "a @ b = m" by (simp add: a_def b_def)
  have lb: "length b = 4" using len by (simp add: b_def)
  have a_ne: "a \<noteq> []" using len by (auto simp: a_def)
  have da: "\<forall>c\<in>set a. isDigit c" using dig by (auto simp: a_def dest: in_set_takeD)
  have db: "\<forall>c\<in>set b. isDigit c" using dig by (auto simp: b_def dest: in_set_dropD)
  have "digitsValue m = digitsValue a * 10 ^ 4 + digitsValue b"
    using digitsValue_append [of a b] by (simp add: ab lb)
  then have num: "real (digitsValue a) + real (digitsValue b) / 10 ^ 4 =
                    real (nat \<lfloor>\<bar>x\<bar> * 10 ^ 4 + 1 / 2\<rfloor>) / 10 ^ 4"
    using val by (simp add: field_simps)
  show ?thesis
  proof (cases "x < 0")
    case True
    then have "toFixed x 4 = ''-'' @ a @ ''.'' @ b" by (simp add: tf a_def b_def)
    then show ?thesis
      using parseFloat_decimal(2) [OF a_ne da db] num True
      by (simp add: lb toFixedValue_def)
  next
    case False
    then have "toFixed x 4 = a @ ''.'' @ b" by (simp add: tf a_def b_def)
    then show ?thesis
      using parseFloat_decimal(1) [OF a_ne da db] num False
      by (simp add: lb toFixedValue_def)
  qed
qed




section \<open>The precision of an emitted record and half the orbit\<close>






section \<open>The order of the result\<close>

lemma sortCompare_precision:
  assumes "parseFloat (precision x) = Some a" "parseFloat (precision y) = Some b"
  shows "sortCompare compareAspectsByPrecision x y = a - b"
  using assms by (simp add: sortCompare_def compareAspectsByPrecision_def)

lemma sorted_insertSorted:
  assumes "\<forall>z\<in>set (x # ys). \<exists>v. parseFloat (precision z) = Some v"
    and "sorted (map (\<lambda>r. the (parseFloat (precision r))) ys)"
  shows "sorted (map (\<lambda>r. the (parseFloat (precision r)))
           (insertSorted compareAspectsByPrecision x ys))"
  using assms
proof (induction ys)
  case Nil
  show ?case by simp
next
  case (Cons y ys)
  from Cons.prems(1) obtain a b where
    a: "parseFloat (precision x) = Some a" and b: "parseFloat (precision y) = Some b"
    by auto
  have cmp: "sortCompare compareAspectsByPrecision x y = a - b"
    by (rule sortCompare_precision [OF a b])
  show ?case
  proof (cases "a \<le> b")
    case True
    with Cons.prems(2) show ?thesis by (auto simp: cmp a b)
  next
    case False
    have "sorted (map (\<lambda>r. the (parseFloat (precision r)))
            (insertSorted compareAspectsByPrecision x ys))"
      using Cons.IH Cons.prems by simp
    with False Cons.prems(2) show ?thesis by (auto simp: cmp a b)
  qed
qed

lemma sorted_array_sort:
  assumes "\<forall>z\<in>set xs. \<exists>v. parseFloat (precision z) = Some v"
  shows "sorted (map (\<lambda>r. the (parseFloat (precision r)))
           (array_sort compareAspectsByPrecision xs))"
  using assms
proof (induction xs)
  case Nil
  show ?case by (simp add: array_sort_def)
next
  case (Cons x xs)
  then have "sorted (map (\<lambda>r. the (parseFloat (precision r)))
               (array_sort compareAspectsByPrecision xs))" by simp
  moreover have "\<forall>z\<in>set (x # array_sort compareAspectsByPrecision xs).
                   \<exists>v. parseFloat (precision z) = Some v"
    using Cons.prems by simp
  ultimately have "sorted (map (\<lambda>r. the (parseFloat (precision r)))
      (insertSorted compareAspectsByPrecision x (array_sort compareAspectsByPrecision xs)))"
    by (rule sorted_insertSorted [rotated])
  then show ?case by (simp add: array_sort_def)
qed

lemma sorted_parsed:
  assumes "\<forall>z\<in>set xs. \<exists>v. parseFloat (precision z) = Some v"
  shows "\<exists>vs. map (\<lambda>r. parseFloat (precision r)) (array_sort compareAspectsByPrecision xs) =
              map Some vs \<and> sorted vs"
proof -
  let ?rs = "array_sort compareAspectsByPrecision xs"
  let ?vs = "map (\<lambda>r. the (parseFloat (precision r))) ?rs"
  have "\<forall>z\<in>set ?rs. \<exists>v. parseFloat (precision z) = Some v" using assms by simp
  then have "map (\<lambda>r. parseFloat (precision r)) ?rs = map Some ?vs" by auto
  with sorted_array_sort [OF assms] show ?thesis by blast
qed

lemma radixAspects_parse:
  "\<forall>z\<in>set (radixAspects this points). \<exists>v. parseFloat (precision z) = Some v"
  by (auto simp: radixAspects_mem radixStep_mem parseFloat_toFixed4)

lemma transitAspects_parse:
  "\<forall>z\<in>set (transitAspects this points). \<exists>v. parseFloat (precision z) = Some v"
  by (auto simp: transitAspects_mem transitStep_mem parseFloat_toFixed4)

text \<open>
  C7. For every engine and every query set, each precision string in the result of \<open>radix\<close>
  and in the result of \<open>transit\<close> parses to a number, and these numbers are in ascending order
  along the result.
\<close>

theorem radix_transit_sorted:
  "(\<exists>vs. map (\<lambda>r. parseFloat (precision r)) (radix this points_arg) = map Some vs \<and> sorted vs) \<and>
   (\<exists>vs. map (\<lambda>r. parseFloat (precision r)) (transit this points_arg) = map Some vs \<and> sorted vs)"
proof (cases points_arg)
  case None
  then show ?thesis by (simp add: radix_def transit_def)
next
  case (Some points)
  then show ?thesis
    using sorted_parsed [OF radixAspects_parse [of this points]]
      sorted_parsed [OF transitAspects_parse [of this points]]
    by (simp add: radix_def transit_def)
qed

theorem radix_transit_sorted_witness:
  "map (\<lambda>r. (name (toPoint r), precision r))
     (radix \<lparr>settings = \<lparr>ASPECTS = Some DEFAULT_ASPECTS\<rparr>,
             toPoints = [(''Mars'', [61]), (''Moon'', [90])]\<rparr> (Some [(''Sun'', [0])])) =
     [(''Moon'', ''0.0000''), (''Mars'', ''1.0000'')] \<and>
   map (\<lambda>r. (name (toPoint r), precision r))
     (transit \<lparr>settings = \<lparr>ASPECTS = Some DEFAULT_ASPECTS\<rparr>,
               toPoints = [(''Moon'', [90]), (''Mars'', [61])]\<rparr> (Some [(''Sun'', [0])])) =
     [(''Mars'', ''-1.0000''), (''Moon'', ''0.0000'')] \<and>
   parseFloat ''-1.0000'' = Some (- 1) \<and> parseFloat ''0.0000'' = Some 0 \<and>
   parseFloat ''1.0000'' = Some 1"
  using
    radix_transit_sorted [of "\<lparr>settings = \<lparr>ASPECTS = Some DEFAULT_ASPECTS\<rparr>,
      toPoints = [(''Mars'', [61]), (''Moon'', [90])]\<rparr>" "Some [(''Sun'', [0])]"]
  by (simp add: engine_eval toFixed_eval parseFloat_eval)

end
